theory Spec2Isabelle
  imports Complex_Main
begin

section \<open>JavaScript numbers\<close>

text \<open>
  The scalar inputs of the component (the props and the samples of the 1-D displacement
  field) are finite numbers and are read as reals; rounding is not modelled. Values the
  component derives can leave the finite numbers (\<^verbatim>\<open>Math.max()\<close> of no arguments is
  \<^verbatim>\<open>-Infinity\<close>, and \<^verbatim>\<open>-Infinity * 0\<close> is \<^verbatim>\<open>NaN\<close>), so derived numbers are
  \<open>jsnum\<close>.
\<close>

datatype jsnum = Fin real | PosInfinity | NegInfinity | NaN

text \<open>\<^verbatim>\<open>a < b\<close> on numbers: every comparison with \<^verbatim>\<open>NaN\<close> is false.\<close>

fun js_less :: "jsnum \<Rightarrow> jsnum \<Rightarrow> bool" where
  "js_less NaN _ = False"
| "js_less _ NaN = False"
| "js_less (Fin a) (Fin b) = (a < b)"
| "js_less (Fin _) PosInfinity = True"
| "js_less (Fin _) NegInfinity = False"
| "js_less PosInfinity _ = False"
| "js_less NegInfinity NegInfinity = False"
| "js_less NegInfinity _ = True"

fun js_sign :: "jsnum \<Rightarrow> real" where
  "js_sign (Fin a) = sgn a"
| "js_sign PosInfinity = 1"
| "js_sign NegInfinity = - 1"
| "js_sign NaN = 0"

text \<open>\<^verbatim>\<open>a * b\<close>: \<^verbatim>\<open>NaN\<close> is absorbing, an infinity times zero is \<^verbatim>\<open>NaN\<close>,
  otherwise the sign of an infinite product is the product of the signs.\<close>

fun js_times :: "jsnum \<Rightarrow> jsnum \<Rightarrow> jsnum" where
  "js_times NaN _ = NaN"
| "js_times _ NaN = NaN"
| "js_times (Fin a) (Fin b) = Fin (a * b)"
| "js_times a b =
     (if js_sign a * js_sign b = 0 then NaN
      else if 0 < js_sign a * js_sign b then PosInfinity
      else NegInfinity)"

text \<open>\<^verbatim>\<open>Math.max(...xs)\<close> as ECMAScript defines it: start from \<^verbatim>\<open>-Infinity\<close> and keep
  the larger value, argument by argument. The arguments here are finite, so the
  \<^verbatim>\<open>NaN\<close> exit of the loop is never taken.\<close>

definition Math_max :: "real list \<Rightarrow> jsnum" where
  "Math_max xs = foldl (\<lambda>highest x. if js_less highest (Fin x) then Fin x else highest) NegInfinity xs"

section \<open>Props\<close>

text \<open>A prop of type \<^verbatim>\<open>number | MotionValue<number>\<close>: a literal, or a motion value
  together with its current value.\<close>

datatype 'a value_or_motion = Literal 'a | Motion 'a

text \<open>Modelled from the spec: \<^verbatim>\<open>getValueOrMotion\<close> (module \<^verbatim>\<open>./useValueOrMotion\<close> is
  not among the sources). The configuration parameters are "either literal scalars or
  externally-driven continuously-updating values"; the function reads the literal, or
  the current value of the motion value.\<close>

fun getValueOrMotion :: "'a value_or_motion \<Rightarrow> 'a" where
  "getValueOrMotion (Literal v) = v"
| "getValueOrMotion (Motion v) = v"

datatype color_scheme = Light | Dark

record FilterProps =
  filter_id :: string
  withSvgWrapper :: "bool option"
  scaleRatio :: "real option"
  canvasWidth :: "real option"
  canvasHeight :: "real option"
  blur :: "real value_or_motion"
  width :: "real value_or_motion"
  height :: "real value_or_motion"
  radius :: "real value_or_motion"
  glassThickness :: "real value_or_motion"
  bezelWidth :: "real value_or_motion"
  refractiveIndex :: "real value_or_motion"
  specularOpacity :: "real value_or_motion"
  specularSaturation :: "real value_or_motion option"
  magnifyingScale :: "real value_or_motion option"
  colorScheme :: "color_scheme option"
  dpr :: "real option"
  bezelHeightFn :: "(real \<Rightarrow> real) option"

text \<open>JavaScript truthiness of a \<^verbatim>\<open>number | MotionValue<number> | undefined\<close>:
  \<^verbatim>\<open>undefined\<close> and the number 0 are falsy; a motion value is an object, and an object
  is truthy whatever it holds.\<close>

fun truthy :: "real value_or_motion option \<Rightarrow> bool" where
  "truthy None = False"
| "truthy (Some (Literal n)) = (n \<noteq> 0)"
| "truthy (Some (Motion _)) = True"

text \<open>The value \<^verbatim>\<open>useTransform\<close> returns is a motion value, an object: as a condition it
  is true, also when the value it holds is \<^verbatim>\<open>undefined\<close>.\<close>

definition motion_value_truthy :: "'a \<Rightarrow> bool" where
  "motion_value_truthy held = True"

section \<open>The modules the component imports\<close>

text \<open>
  The rasterizers (\<^verbatim>\<open>./displacementMap\<close>, \<^verbatim>\<open>./magnifyingDisplacement\<close>,
  \<^verbatim>\<open>./specular\<close>), the convex profile (\<^verbatim>\<open>./surfaceEquations\<close>) and the canvas
  library are not among the sources; the component takes them as parameters. \<open>'img\<close>
  is the type of \<^verbatim>\<open>ImageData\<close>.
\<close>

record 'img deps =
  calculateDisplacementMap :: "real \<Rightarrow> real \<Rightarrow> (real \<Rightarrow> real) \<Rightarrow> real \<Rightarrow> real list"
  calculateDisplacementMap2 ::
    "real \<Rightarrow> real \<Rightarrow> real \<Rightarrow> real \<Rightarrow> real \<Rightarrow> real \<Rightarrow> jsnum \<Rightarrow> real list \<Rightarrow> real option \<Rightarrow> 'img"
  calculateRefractionSpecular ::
    "real \<Rightarrow> real \<Rightarrow> real \<Rightarrow> real \<Rightarrow> real option \<Rightarrow> real option \<Rightarrow> 'img"
  calculateMagnifyingDisplacementMap :: "real \<Rightarrow> real \<Rightarrow> 'img"
  CONVEX_fn :: "real \<Rightarrow> real"
  canvas_getContext :: "'img \<Rightarrow> bool"
  canvas_toDataURL :: "'img \<Rightarrow> string"

text \<open>What a render can throw: the error of \<^verbatim>\<open>imageDataToUrl\<close>, and the
  \<^verbatim>\<open>TypeError\<close> of reading the width of \<^verbatim>\<open>undefined\<close>.\<close>

datatype error = FailedToGetCanvasContext | TypeError

text \<open>\<^verbatim>\<open>imageDataToUrl\<close>: a canvas of the size of the image; no 2-D context throws;
  otherwise the image is put on the canvas and the canvas is encoded.\<close>

definition imageDataToUrl :: "'img deps \<Rightarrow> 'img \<Rightarrow> error + string" where
  "imageDataToUrl d imageData =
     (if \<not> canvas_getContext d imageData then Inl FailedToGetCanvasContext
      else Inr (canvas_toDataURL d imageData))"

section \<open>The derived values of \<^verbatim>\<open>Filter\<close>\<close>

text \<open>The defaults of the destructured props.\<close>

definition specularSaturation_prop :: "FilterProps \<Rightarrow> real value_or_motion" where
  "specularSaturation_prop p = (case specularSaturation p of None \<Rightarrow> Literal 4 | Some v \<Rightarrow> v)"

definition bezelHeightFn_prop :: "'img deps \<Rightarrow> FilterProps \<Rightarrow> real \<Rightarrow> real" where
  "bezelHeightFn_prop d p = (case bezelHeightFn p of None \<Rightarrow> CONVEX_fn d | Some f \<Rightarrow> f)"

definition withSvgWrapper_prop :: "FilterProps \<Rightarrow> bool" where
  "withSvgWrapper_prop p = (case withSvgWrapper p of None \<Rightarrow> True | Some b \<Rightarrow> b)"

text \<open>\<^verbatim>\<open>canvasWidth ?? width\<close> and \<^verbatim>\<open>canvasHeight ?? height\<close>.\<close>

definition canvasWidth_or_width :: "FilterProps \<Rightarrow> real value_or_motion" where
  "canvasWidth_or_width p = (case canvasWidth p of None \<Rightarrow> width p | Some w \<Rightarrow> Literal w)"

definition canvasHeight_or_height :: "FilterProps \<Rightarrow> real value_or_motion" where
  "canvasHeight_or_height p = (case canvasHeight p of None \<Rightarrow> height p | Some h \<Rightarrow> Literal h)"

text \<open>\<^verbatim>\<open>map\<close>: the 1-D displacement field.\<close>

definition map_field :: "'img deps \<Rightarrow> FilterProps \<Rightarrow> real list" where
  "map_field d p =
     calculateDisplacementMap d
       (getValueOrMotion (glassThickness p))
       (getValueOrMotion (bezelWidth p))
       (bezelHeightFn_prop d p)
       (getValueOrMotion (refractiveIndex p))"

text \<open>\<^verbatim>\<open>maximumDisplacement\<close>, from the value of \<^verbatim>\<open>map\<close>:
  \<^verbatim>\<open>Math.max(...map.get().map((v) => Math.abs(v)))\<close>.\<close>

definition maximumDisplacement :: "real list \<Rightarrow> jsnum" where
  "maximumDisplacement field = Math_max (map (\<lambda>v. \<bar>v\<bar>) field)"

definition displacementMap :: "'img deps \<Rightarrow> FilterProps \<Rightarrow> 'img" where
  "displacementMap d p =
     calculateDisplacementMap2 d
       (getValueOrMotion (canvasWidth_or_width p))
       (getValueOrMotion (canvasHeight_or_height p))
       (getValueOrMotion (width p))
       (getValueOrMotion (height p))
       (getValueOrMotion (radius p))
       (getValueOrMotion (bezelWidth p))
       (maximumDisplacement (map_field d p))
       (map_field d p)
       (dpr p)"

definition specularLayer :: "'img deps \<Rightarrow> FilterProps \<Rightarrow> 'img" where
  "specularLayer d p =
     calculateRefractionSpecular d
       (getValueOrMotion (width p))
       (getValueOrMotion (height p))
       (getValueOrMotion (radius p))
       50
       None
       (dpr p)"

definition magnifyingDisplacementMap :: "'img deps \<Rightarrow> FilterProps \<Rightarrow> 'img option" where
  "magnifyingDisplacementMap d p =
     (if magnifyingScale p \<noteq> None
      then Some (calculateMagnifyingDisplacementMap d
                   (getValueOrMotion (canvasWidth_or_width p))
                   (getValueOrMotion (canvasHeight_or_height p)))
      else None)"

text \<open>The three data URLs. The first holds \<^verbatim>\<open>undefined\<close> (\<open>None\<close>) unless
  \<^verbatim>\<open>magnifyingScale\<close> is truthy; then it encodes the value of
  \<^verbatim>\<open>magnifyingDisplacementMap\<close>.\<close>

definition magnifyingDisplacementMapDataUrl ::
    "'img deps \<Rightarrow> FilterProps \<Rightarrow> error + string option" where
  "magnifyingDisplacementMapDataUrl d p =
     (if truthy (magnifyingScale p)
      then (case magnifyingDisplacementMap d p of
              None \<Rightarrow> Inl TypeError
            | Some imageData \<Rightarrow>
                (case imageDataToUrl d imageData of
                   Inl e \<Rightarrow> Inl e
                 | Inr url \<Rightarrow> Inr (Some url)))
      else Inr None)"

definition displacementMapDataUrl :: "'img deps \<Rightarrow> FilterProps \<Rightarrow> error + string" where
  "displacementMapDataUrl d p = imageDataToUrl d (displacementMap d p)"

definition specularLayerDataUrl :: "'img deps \<Rightarrow> FilterProps \<Rightarrow> error + string" where
  "specularLayerDataUrl d p = imageDataToUrl d (specularLayer d p)"

text \<open>\<^verbatim>\<open>scale\<close>: \<^verbatim>\<open>maximumDisplacement.get() * (scaleRatio?.get() ?? 1)\<close>.\<close>

definition scale :: "'img deps \<Rightarrow> FilterProps \<Rightarrow> jsnum" where
  "scale d p =
     js_times (maximumDisplacement (map_field d p))
       (Fin (case scaleRatio p of None \<Rightarrow> 1 | Some r \<Rightarrow> r))"

section \<open>The element tree\<close>

text \<open>
  An attribute value is a string, a number, or the string a number prints as
  (\<open>NumString r\<close> is \<^verbatim>\<open>r.toString()\<close>). A child of an element is an element, a
  fragment, a number (what \<^verbatim>\<open>0 && ...\<close> leaves; React renders it as text) or nothing
  (\<^verbatim>\<open>undefined\<close>).
\<close>

datatype attr = S string | N jsnum | NumString real

datatype jsx =
  Element string "(string \<times> attr) list" "jsx list"
| Fragment "jsx list"
| NumberChild real
| Nothing

definition magnifying_stage :: "FilterProps \<Rightarrow> string option \<Rightarrow> jsx" where
  "magnifying_stage p magnifyingUrl =
     (case magnifyingScale p of
        None \<Rightarrow> Nothing
      | Some ms \<Rightarrow>
          if \<not> truthy (Some ms) then NumberChild (getValueOrMotion ms)
          else Fragment
            [Element ''feImage''
               ((case magnifyingUrl of None \<Rightarrow> [] | Some url \<Rightarrow> [(''href'', S url)]) @
                [(''x'', N (Fin 0)),
                 (''y'', N (Fin 0)),
                 (''width'', N (Fin (getValueOrMotion (canvasWidth_or_width p)))),
                 (''height'', N (Fin (getValueOrMotion (canvasHeight_or_height p)))),
                 (''result'', S ''magnifying_displacement_map'')])
               [],
             Element ''feDisplacementMap''
               [(''in'', S ''SourceGraphic''),
                (''in2'', S ''magnifying_displacement_map''),
                (''scale'', N (Fin (getValueOrMotion ms))),
                (''xChannelSelector'', S ''R''),
                (''yChannelSelector'', S ''G''),
                (''result'', S ''magnified_source'')]
               []])"

definition color_stage :: "FilterProps \<Rightarrow> string option \<Rightarrow> jsx" where
  "color_stage p magnifyingUrl =
     (case colorScheme p of
        None \<Rightarrow> Nothing
      | Some cs \<Rightarrow>
          Element ''feColorMatrix''
            [(''in'', S (if motion_value_truthy magnifyingUrl
                          then ''magnified_source'' else ''SourceGraphic'')),
             (''type'', S ''matrix''),
             (''values'', S (if cs = Dark
                              then ''0.9 0 0 0 -0.3 0 0.9 0 0 -0.3 0 0 0.9 0 -0.3 0 0 0 1 0''
                              else ''1.03 0 0 0 0.2 0 1.03 0 0 0.2 0 0 1.03 0 0.2 0 0 0 1 0'')),
             (''result'', S ''brightened_source'')]
            [])"

definition channel_split :: "string \<Rightarrow> string \<Rightarrow> string \<Rightarrow> string \<Rightarrow> jsx" where
  "channel_split result_name slopeR slopeG slopeB =
     Element ''feComponentTransfer''
       [(''in'', S ''blurred_source''), (''result'', S result_name)]
       [Element ''feFuncR'' [(''type'', S ''linear''), (''slope'', S slopeR), (''intercept'', S ''0'')] [],
        Element ''feFuncG'' [(''type'', S ''linear''), (''slope'', S slopeG), (''intercept'', S ''0'')] [],
        Element ''feFuncB'' [(''type'', S ''linear''), (''slope'', S slopeB), (''intercept'', S ''0'')] []]"

definition channel_displacement :: "string \<Rightarrow> jsnum \<Rightarrow> string \<Rightarrow> jsx" where
  "channel_displacement input sc result_name =
     Element ''feDisplacementMap''
       [(''in'', S input),
        (''in2'', S ''displacement_map''),
        (''scale'', N sc),
        (''xChannelSelector'', S ''R''),
        (''yChannelSelector'', S ''G''),
        (''result'', S result_name)]
       []"

text \<open>The blur of the source, or of what the optional stages made of it.\<close>

definition blur_stage :: "FilterProps \<Rightarrow> string option \<Rightarrow> jsx" where
  "blur_stage p magnifyingUrl =
     Element ''feGaussianBlur''
       [(''in'', S (if colorScheme p \<noteq> None then ''brightened_source''
                     else if motion_value_truthy magnifyingUrl then ''magnified_source''
                     else ''SourceGraphic'')),
        (''stdDeviation'', N (Fin (getValueOrMotion (blur p)))),
        (''result'', S ''blurred_source'')]
       []"

text \<open>The dispersion: the displacement bitmap, the three channel copies, their
  displacements and the two screen blends.\<close>

definition dispersion_stage :: "'img deps \<Rightarrow> FilterProps \<Rightarrow> string \<Rightarrow> jsx list" where
  "dispersion_stage d p displacementUrl =
     [Element ''feImage''
        [(''href'', S displacementUrl),
         (''x'', N (Fin 0)),
         (''y'', N (Fin 0)),
         (''width'', N (Fin (getValueOrMotion (canvasWidth_or_width p)))),
         (''height'', N (Fin (getValueOrMotion (canvasHeight_or_height p)))),
         (''result'', S ''displacement_map'')]
        [],
      channel_split ''red_channel'' ''1'' ''0'' ''0'',
      channel_split ''green_channel'' ''0'' ''1'' ''0'',
      channel_split ''blue_channel'' ''0'' ''0'' ''1'',
      channel_displacement ''red_channel'' (js_times (scale d p) (Fin 0.8)) ''displaced_red'',
      channel_displacement ''green_channel'' (js_times (scale d p) (Fin 0.9)) ''displaced_green'',
      channel_displacement ''blue_channel'' (scale d p) ''displaced_blue'',
      Element ''feBlend''
        [(''in'', S ''displaced_red''), (''in2'', S ''displaced_green''),
         (''mode'', S ''screen''), (''result'', S ''displaced_rg'')]
        [],
      Element ''feBlend''
        [(''in'', S ''displaced_rg''), (''in2'', S ''displaced_blue''),
         (''mode'', S ''screen''), (''result'', S ''displaced_combined'')]
        []]"

text \<open>The blur of the combined result, its fade, and the blend of the two.\<close>

definition overlay_stage :: "jsx list" where
  "overlay_stage =
     [Element ''feGaussianBlur''
        [(''in'', S ''displaced_combined''),
         (''stdDeviation'', N (Fin 10)),
         (''result'', S ''displaced_blurred'')]
        [],
      Element ''feComponentTransfer''
        [(''in'', S ''displaced_blurred''), (''result'', S ''displaced_blurred_faded'')]
        [Element ''feFuncA'' [(''type'', S ''linear''), (''slope'', S ''0.7'')] []],
      Element ''feBlend''
        [(''in'', S ''displaced_combined''), (''in2'', S ''displaced_blurred_faded''),
         (''mode'', S ''normal''), (''result'', S ''displaced'')]
        []]"

definition saturation_stage :: "FilterProps \<Rightarrow> jsx" where
  "saturation_stage p =
     Element ''feColorMatrix''
       [(''in'', S ''displaced''),
        (''type'', S ''saturate''),
        (''values'', NumString (getValueOrMotion (specularSaturation_prop p))),
        (''result'', S ''displaced_saturated'')]
       []"

definition specular_image :: "FilterProps \<Rightarrow> string \<Rightarrow> jsx" where
  "specular_image p specularUrl =
     Element ''feImage''
       [(''href'', S specularUrl),
        (''x'', N (Fin 0)),
        (''y'', N (Fin 0)),
        (''width'', N (Fin (getValueOrMotion (canvasWidth_or_width p)))),
        (''height'', N (Fin (getValueOrMotion (canvasHeight_or_height p)))),
        (''result'', S ''specular_layer'')]
       []"

text \<open>The last four nodes: the composite, the fade of the specular layer, and the two
  blends; the last one declares no result.\<close>

definition specular_stage :: "FilterProps \<Rightarrow> jsx list" where
  "specular_stage p =
     [Element ''feComposite''
        [(''in'', S ''displaced_saturated''), (''in2'', S ''specular_layer''),
         (''operator'', S ''in''), (''result'', S ''specular_saturated'')]
        [],
      Element ''feComponentTransfer''
        [(''in'', S ''specular_layer''), (''result'', S ''specular_faded'')]
        [Element ''feFuncA''
           [(''type'', S ''linear''),
            (''slope'', N (Fin (getValueOrMotion (specularOpacity p))))]
           []],
      Element ''feBlend''
        [(''in'', S ''specular_saturated''), (''in2'', S ''displaced''),
         (''mode'', S ''normal''), (''result'', S ''withSaturation'')]
        [],
      Element ''feBlend''
        [(''in'', S ''specular_faded''), (''in2'', S ''withSaturation''),
         (''mode'', S ''normal'')]
        []]"

text \<open>\<^verbatim>\<open>content\<close>: the \<^verbatim>\<open><filter>\<close> element, its children in the order of the source.\<close>

definition content :: "'img deps \<Rightarrow> FilterProps \<Rightarrow> string option \<Rightarrow> string \<Rightarrow> string \<Rightarrow> jsx" where
  "content d p magnifyingUrl displacementUrl specularUrl =
     Element ''filter'' [(''id'', S (filter_id p))]
       ([magnifying_stage p magnifyingUrl,
         color_stage p magnifyingUrl,
         blur_stage p magnifyingUrl]
        @ dispersion_stage d p displacementUrl
        @ overlay_stage
        @ [saturation_stage p, specular_image p specularUrl]
        @ specular_stage p)"

text \<open>
  \<^verbatim>\<open>Filter\<close>. The three data URLs are computed while the component renders, so a
  failing \<^verbatim>\<open>imageDataToUrl\<close> fails the render; otherwise the filter is returned, in
  its \<^verbatim>\<open><svg><defs>\<close> wrapper unless \<^verbatim>\<open>withSvgWrapper\<close> is false.
\<close>

definition Filter :: "'img deps \<Rightarrow> FilterProps \<Rightarrow> error + jsx" where
  "Filter d p =
     (case magnifyingDisplacementMapDataUrl d p of
        Inl e \<Rightarrow> Inl e
      | Inr magnifyingUrl \<Rightarrow>
     (case displacementMapDataUrl d p of
        Inl e \<Rightarrow> Inl e
      | Inr displacementUrl \<Rightarrow>
     (case specularLayerDataUrl d p of
        Inl e \<Rightarrow> Inl e
      | Inr specularUrl \<Rightarrow>
          Inr (if withSvgWrapper_prop p
               then Element ''svg''
                      [(''colorInterpolationFilters'', S ''sRGB''), (''style'', S ''display:none'')]
                      [Element ''defs'' [] [content d p magnifyingUrl displacementUrl specularUrl]]
               else content d p magnifyingUrl displacementUrl specularUrl))))"

section \<open>The filter graph of an element tree\<close>

text \<open>The filter primitives a child contributes, in order: a fragment contributes those
  of its children, a number or nothing contributes none.\<close>

fun primitives :: "jsx \<Rightarrow> jsx list" where
  "primitives (Element tag attrs cs) = [Element tag attrs cs]"
| "primitives (Fragment cs) = concat (map primitives cs)"
| "primitives (NumberChild _) = []"
| "primitives Nothing = []"

text \<open>The graph of a tree: the primitives of its \<^verbatim>\<open><filter>\<close> element.\<close>

fun filter_graph :: "jsx \<Rightarrow> jsx list" where
  "filter_graph (Element tag attrs cs) =
     (if tag = ''filter'' then concat (map primitives cs) else concat (map filter_graph cs))"
| "filter_graph (Fragment cs) = concat (map filter_graph cs)"
| "filter_graph (NumberChild _) = []"
| "filter_graph Nothing = []"

fun tag_of :: "jsx \<Rightarrow> string" where
  "tag_of (Element tag _ _) = tag"
| "tag_of _ = []"

fun attribute :: "jsx \<Rightarrow> string \<Rightarrow> attr option" where
  "attribute (Element _ attrs _) k = map_of attrs k"
| "attribute _ _ = None"

fun children :: "jsx \<Rightarrow> jsx list" where
  "children (Element _ _ cs) = cs"
| "children (Fragment cs) = cs"
| "children _ = []"

text \<open>The node of a graph that declares a result name (the first one, if several do).\<close>

definition node_named :: "jsx list \<Rightarrow> string \<Rightarrow> jsx option" where
  "node_named g r = find (\<lambda>n. attribute n ''result'' = Some (S r)) g"

text \<open>The displacements by the bezel bitmap, in order: for each \<^verbatim>\<open>feDisplacementMap\<close> node
  whose \<^verbatim>\<open>in2\<close> is \<^verbatim>\<open>displacement_map\<close>, its input and its scale.\<close>

definition bezel_displacements :: "jsx list \<Rightarrow> (attr option \<times> attr option) list" where
  "bezel_displacements g =
     map (\<lambda>n. (attribute n ''in'', attribute n ''scale''))
       (filter (\<lambda>n. tag_of n = ''feDisplacementMap''
                   \<and> attribute n ''in2'' = Some (S ''displacement_map'')) g)"

section \<open>Well-formed graphs\<close>

text \<open>The source tokens the filter syntax reserves.\<close>

definition reserved_sources :: "string list" where
  "reserved_sources =
     [''SourceGraphic'', ''SourceAlpha'', ''BackgroundImage'', ''BackgroundAlpha'',
      ''FillPaint'', ''StrokePaint'']"

text \<open>The names a node refers to: the values of its \<^verbatim>\<open>in\<close> and \<^verbatim>\<open>in2\<close> attributes.\<close>

fun references_of :: "(string \<times> attr) list \<Rightarrow> string list" where
  "references_of [] = []"
| "references_of ((k, S name) # attrs) =
     (if k = ''in'' \<or> k = ''in2'' then name # references_of attrs else references_of attrs)"
| "references_of (_ # attrs) = references_of attrs"

fun references :: "jsx \<Rightarrow> string list" where
  "references (Element _ attrs _) = references_of attrs"
| "references _ = []"

fun declare_result :: "jsx \<Rightarrow> string list \<Rightarrow> string list" where
  "declare_result n declared =
     (case attribute n ''result'' of Some (S r) \<Rightarrow> r # declared | _ \<Rightarrow> declared)"

text \<open>A graph is well formed from the names declared so far when each node, in order,
  refers only to reserved tokens and to names declared before it.\<close>

fun well_formed_from :: "string list \<Rightarrow> jsx list \<Rightarrow> bool" where
  "well_formed_from declared [] = True"
| "well_formed_from declared (n # ns) =
     (list_all (\<lambda>r. r \<in> set reserved_sources \<or> r \<in> set declared) (references n)
      \<and> well_formed_from (declare_result n declared) ns)"

definition well_formed :: "jsx list \<Rightarrow> bool" where
  "well_formed g = well_formed_from [] g"

section \<open>The images of the point-wise primitives\<close>

text \<open>
  What the renderer computes for the three point-wise primitives of the specular stage
  and the overlay blend, as the filter effects specification of SVG defines them, on
  premultiplied RGBA samples in \<open>[0, 1]\<close> (quantisation is not modelled). For
  \<^verbatim>\<open>feComposite\<close> and \<^verbatim>\<open>feBlend\<close>, \<^verbatim>\<open>in\<close> is the source (the top layer) and
  \<^verbatim>\<open>in2\<close> the destination (the backdrop).
\<close>

datatype pixel = Pixel (red: real) (green: real) (blue: real) (alpha: real)

type_synonym image = "nat \<times> nat \<Rightarrow> pixel"

text \<open>\<^verbatim>\<open>feComposite operator="in"\<close>: the part of \<open>a\<close> inside \<open>b\<close>; the colour is that
  of \<open>a\<close>, scaled by the alpha of \<open>b\<close>.\<close>

definition composite_in :: "pixel \<Rightarrow> pixel \<Rightarrow> pixel" where
  "composite_in a b =
     Pixel (red a * alpha b) (green a * alpha b) (blue a * alpha b) (alpha a * alpha b)"

text \<open>\<^verbatim>\<open>feBlend mode="normal"\<close>: \<open>a\<close> over \<open>b\<close>.\<close>

definition blend_normal :: "pixel \<Rightarrow> pixel \<Rightarrow> pixel" where
  "blend_normal a b =
     Pixel (red a + (1 - alpha a) * red b)
           (green a + (1 - alpha a) * green b)
           (blue a + (1 - alpha a) * blue b)
           (alpha a + (1 - alpha a) * alpha b)"

definition clamp01 :: "real \<Rightarrow> real" where
  "clamp01 x = max 0 (min 1 x)"

text \<open>\<^verbatim>\<open>feComponentTransfer\<close> with one \<^verbatim>\<open>feFuncA type="linear"\<close> and no intercept: the
  colour is kept, the alpha becomes \<open>slope * alpha\<close>, clamped.\<close>

definition transfer_alpha_linear :: "real \<Rightarrow> pixel \<Rightarrow> pixel" where
  "transfer_alpha_linear slope px =
     (if alpha px = 0 then Pixel 0 0 0 0
      else Pixel (red px / alpha px * clamp01 (slope * alpha px))
                 (green px / alpha px * clamp01 (slope * alpha px))
                 (blue px / alpha px * clamp01 (slope * alpha px))
                 (clamp01 (slope * alpha px)))"

definition input_image :: "(string \<rightharpoonup> image) \<Rightarrow> jsx \<Rightarrow> string \<Rightarrow> image option" where
  "input_image env n k = (case attribute n k of Some (S name) \<Rightarrow> env name | _ \<Rightarrow> None)"

definition alpha_slope :: "jsx list \<Rightarrow> real option" where
  "alpha_slope funcs =
     (case funcs of
        [f] \<Rightarrow>
          if tag_of f = ''feFuncA'' \<and> attribute f ''type'' = Some (S ''linear'')
             \<and> attribute f ''intercept'' = None
          then (case attribute f ''slope'' of Some (N (Fin s)) \<Rightarrow> Some s | _ \<Rightarrow> None)
          else None
      | _ \<Rightarrow> None)"

text \<open>The image of a node, given the images of the names declared so far; \<open>None\<close> for a
  primitive that is not one of the three above, or whose input is not declared.\<close>

definition primitive_image :: "(string \<rightharpoonup> image) \<Rightarrow> jsx \<Rightarrow> image option" where
  "primitive_image env n =
     (if tag_of n = ''feComposite'' \<and> attribute n ''operator'' = Some (S ''in'') then
        (case (input_image env n ''in'', input_image env n ''in2'') of
           (Some a, Some b) \<Rightarrow> Some (\<lambda>pos. composite_in (a pos) (b pos))
         | _ \<Rightarrow> None)
      else if tag_of n = ''feBlend'' \<and> attribute n ''mode'' = Some (S ''normal'') then
        (case (input_image env n ''in'', input_image env n ''in2'') of
           (Some a, Some b) \<Rightarrow> Some (\<lambda>pos. blend_normal (a pos) (b pos))
         | _ \<Rightarrow> None)
      else if tag_of n = ''feComponentTransfer'' then
        (case (input_image env n ''in'', alpha_slope (children n)) of
           (Some a, Some s) \<Rightarrow> Some (\<lambda>pos. transfer_alpha_linear s (a pos))
         | _ \<Rightarrow> None)
      else None)"

definition bind_result :: "jsx \<Rightarrow> image \<Rightarrow> (string \<rightharpoonup> image) \<Rightarrow> (string \<rightharpoonup> image)" where
  "bind_result n img env =
     (case attribute n ''result'' of Some (S r) \<Rightarrow> env(r \<mapsto> img) | _ \<Rightarrow> env)"

text \<open>The image of the last node of a run of nodes, each evaluated on the results of
  those before it.\<close>

fun render :: "(string \<rightharpoonup> image) \<Rightarrow> jsx list \<Rightarrow> image option" where
  "render env [] = None"
| "render env [n] = primitive_image env n"
| "render env (n # ns) =
     (case primitive_image env n of
        None \<Rightarrow> None
      | Some img \<Rightarrow> render (bind_result n img env) ns)"

text \<open>The terminal specular stage of a graph: its last four nodes.\<close>

definition terminal_stage :: "jsx list \<Rightarrow> jsx list" where
  "terminal_stage g = drop (length g - 4) g"

section \<open>Observations of a render\<close>

text \<open>The graph a render emits (none when it throws), the node that declares a name, an
  attribute of that node, and the pixel of an image.\<close>

definition emitted_graph :: "'img deps \<Rightarrow> FilterProps \<Rightarrow> jsx list option" where
  "emitted_graph d p = (case Filter d p of Inl e \<Rightarrow> None | Inr out \<Rightarrow> Some (filter_graph out))"

definition emitted_node :: "'img deps \<Rightarrow> FilterProps \<Rightarrow> string \<Rightarrow> jsx option" where
  "emitted_node d p r = Option.bind (emitted_graph d p) (\<lambda>g. node_named g r)"

definition emitted_attribute :: "'img deps \<Rightarrow> FilterProps \<Rightarrow> string \<Rightarrow> string \<Rightarrow> attr option" where
  "emitted_attribute d p r k = Option.bind (emitted_node d p r) (\<lambda>n. attribute n k)"

definition pixel_of :: "image option \<Rightarrow> nat \<times> nat \<Rightarrow> pixel option" where
  "pixel_of img pos = map_option (\<lambda>i. i pos) img"

text \<open>The pixel of the node that declares a name, and of the last node of the graph, on
  given images of the names they read.\<close>

definition node_pixel ::
    "'img deps \<Rightarrow> FilterProps \<Rightarrow> (string \<rightharpoonup> image) \<Rightarrow> string \<Rightarrow> nat \<times> nat \<Rightarrow> pixel option" where
  "node_pixel d p env r pos =
     pixel_of (Option.bind (emitted_node d p r) (primitive_image env)) pos"

definition terminal_pixel ::
    "'img deps \<Rightarrow> FilterProps \<Rightarrow> (string \<rightharpoonup> image) \<Rightarrow> nat \<times> nat \<Rightarrow> pixel option" where
  "terminal_pixel d p env pos =
     pixel_of (Option.bind (emitted_graph d p) (\<lambda>g. render env (terminal_stage g))) pos"

section \<open>Sample inputs\<close>

text \<open>Stand-ins for the imported modules: images are numbered, the field has three
  samples, the canvas always has a context.\<close>

definition sample_deps :: "nat deps" where
  "sample_deps =
     \<lparr>calculateDisplacementMap = (\<lambda>thickness bezel profile index. [0, - 3, profile 2]),
      calculateDisplacementMap2 = (\<lambda>_ _ _ _ _ _ _ _ _. 1),
      calculateRefractionSpecular = (\<lambda>_ _ _ _ _ _. 2),
      calculateMagnifyingDisplacementMap = (\<lambda>_ _. 3),
      CONVEX_fn = (\<lambda>x. x),
      canvas_getContext = (\<lambda>_. True),
      canvas_toDataURL =
        (\<lambda>i. if i = 1 then ''data:displacement''
             else if i = 2 then ''data:specular'' else ''data:magnifying'')\<rparr>"

text \<open>The props \<^verbatim>\<open>Slider\<close> passes (no magnification, no colour scheme), with the values
  its motion values start from.\<close>

definition slider_props :: FilterProps where
  "slider_props =
     \<lparr>filter_id = ''thumb-filter-slider'', withSvgWrapper = None, scaleRatio = Some 0.4,
      canvasWidth = None, canvasHeight = None, blur = Motion 0, width = Literal 90,
      height = Literal 60, radius = Literal 30, glassThickness = Literal 80,
      bezelWidth = Literal 16, refractiveIndex = Literal 1.45, specularOpacity = Motion 0.4,
      specularSaturation = Some (Motion 7), magnifyingScale = None, colorScheme = None,
      dpr = None, bezelHeightFn = None\<rparr>"

text \<open>The props \<^verbatim>\<open>Switch\<close> passes (magnification by a motion value).\<close>

definition switch_props :: FilterProps where
  "switch_props =
     \<lparr>filter_id = ''thumb-filter-refined'', withSvgWrapper = None, scaleRatio = Some 0.4,
      canvasWidth = None, canvasHeight = None, blur = Motion 0.2, width = Literal 146,
      height = Literal 92, radius = Literal 46, glassThickness = Literal 47,
      bezelWidth = Literal 19, refractiveIndex = Literal 1.5, specularOpacity = Motion 0.5,
      specularSaturation = Some (Motion 6), magnifyingScale = Some (Motion 12),
      colorScheme = None, dpr = None, bezelHeightFn = None\<rparr>"

text \<open>Images for the names the specular stage reads, constant over the canvas: an
  opaque displaced result, its saturated copy, and a specular layer of the given pixel.\<close>

definition sample_env :: "pixel \<Rightarrow> (string \<rightharpoonup> image)" where
  "sample_env specular =
     [''displaced'' \<mapsto> (\<lambda>pos. Pixel 0.2 0.4 0.6 1),
      ''displaced_saturated'' \<mapsto> (\<lambda>pos. Pixel 0 0.4 1 1),
      ''specular_layer'' \<mapsto> (\<lambda>pos. specular)]"

text \<open>Images for the names the overlay blend reads: an opaque combined result and a
  blurred copy of alpha 0.7.\<close>

definition overlay_env :: "string \<rightharpoonup> image" where
  "overlay_env =
     [''displaced_combined'' \<mapsto> (\<lambda>pos. Pixel 0.2 0.4 0.6 1),
      ''displaced_blurred_faded'' \<mapsto> (\<lambda>pos. Pixel 0.21 0.28 0.35 0.7)]"

section \<open>Maximum displacement\<close>

lemma Math_max_foldl_Fin:
  "\<exists>m. foldl (\<lambda>highest x. if js_less highest (Fin x) then Fin x else highest) (Fin a) xs = Fin m
       \<and> a \<le> m \<and> (\<forall>x \<in> set xs. x \<le> m) \<and> (m = a \<or> m \<in> set xs)"
proof (induction xs arbitrary: a)
  case Nil
  show ?case by simp
next
  case (Cons x xs)
  show ?case
  proof (cases "a < x")
    case True
    from Cons.IH [of x] obtain m where
      "foldl (\<lambda>highest x. if js_less highest (Fin x) then Fin x else highest) (Fin x) xs = Fin m"
      "x \<le> m" "\<forall>y \<in> set xs. y \<le> m" "m = x \<or> m \<in> set xs"
      by blast
    with True show ?thesis by auto
  next
    case False
    from Cons.IH [of a] obtain m where
      "foldl (\<lambda>highest x. if js_less highest (Fin x) then Fin x else highest) (Fin a) xs = Fin m"
      "a \<le> m" "\<forall>y \<in> set xs. y \<le> m" "m = a \<or> m \<in> set xs"
      by blast
    with False show ?thesis by auto
  qed
qed

lemma Math_max_nonempty:
  assumes "xs \<noteq> []"
  shows "\<exists>m. Math_max xs = Fin m \<and> (\<forall>x \<in> set xs. x \<le> m) \<and> m \<in> set xs"
proof -
  from assms obtain y ys where xs: "xs = y # ys" by (cases xs) auto
  from Math_max_foldl_Fin [of y ys] obtain m where
    "foldl (\<lambda>highest x. if js_less highest (Fin x) then Fin x else highest) (Fin y) ys = Fin m"
    "y \<le> m" "\<forall>x \<in> set ys. x \<le> m" "m = y \<or> m \<in> set ys"
    by blast
  then show ?thesis by (auto simp: Math_max_def xs)
qed

text \<open>
  C7. For every non-empty 1-D displacement field, \<open>maximumDisplacement\<close> is a finite
  number \<open>m\<close> with \<open>m \<ge> |v|\<close> for every sample \<open>v\<close> of the field, and \<open>m = |v|\<close> for
  at least one sample.
\<close>

theorem maximumDisplacement_bounds_field:
  assumes "field \<noteq> []"
  shows "\<exists>m. maximumDisplacement field = Fin m
           \<and> (\<forall>v \<in> set field. \<bar>v\<bar> \<le> m)
           \<and> (\<exists>v \<in> set field. m = \<bar>v\<bar>)"
proof -
  from assms have "map (\<lambda>v. \<bar>v\<bar>) field \<noteq> []" by simp
  from Math_max_nonempty [OF this] obtain m where
    m: "Math_max (map (\<lambda>v. \<bar>v\<bar>) field) = Fin m"
       "\<forall>x \<in> set (map (\<lambda>v. \<bar>v\<bar>) field). x \<le> m"
       "m \<in> set (map (\<lambda>v. \<bar>v\<bar>) field)"
    by blast
  from m(2) have "\<forall>v \<in> set field. \<bar>v\<bar> \<le> m" by simp
  moreover from m(3) have "\<exists>v \<in> set field. m = \<bar>v\<bar>" by auto
  ultimately show ?thesis using m(1) by (simp add: maximumDisplacement_def)
qed

theorem maximumDisplacement_bounds_field_witness:
  "[3, - 7, 2] \<noteq> ([] :: real list)
   \<and> (\<exists>m. maximumDisplacement [3, - 7, 2] = Fin m
         \<and> (\<forall>v \<in> set [3, - 7, 2]. \<bar>v\<bar> \<le> m)
         \<and> (\<exists>v \<in> set [3, - 7, 2]. m = \<bar>v\<bar>))"
proof -
  have h: "[3, - 7, 2] \<noteq> ([] :: real list)" by simp
  show ?thesis using h maximumDisplacement_bounds_field [OF h] by simp
qed

section \<open>The graph \<^verbatim>\<open>Filter\<close> returns\<close>

lemma primitives_dispersion_stage:
  "concat (map primitives (dispersion_stage d p du)) = dispersion_stage d p du"
  by (simp add: dispersion_stage_def channel_split_def channel_displacement_def)

lemma primitives_overlay_stage: "concat (map primitives overlay_stage) = overlay_stage"
  by (simp add: overlay_stage_def)

lemma primitives_specular_stage: "concat (map primitives (specular_stage p)) = specular_stage p"
  by (simp add: specular_stage_def)

lemma filter_graph_content:
  "filter_graph (content d p mu du su) =
     primitives (magnifying_stage p mu) @ primitives (color_stage p mu)
     @ [blur_stage p mu] @ dispersion_stage d p du @ overlay_stage
     @ [saturation_stage p, specular_image p su] @ specular_stage p"
  by (simp add: content_def primitives_dispersion_stage primitives_overlay_stage
      primitives_specular_stage blur_stage_def saturation_stage_def specular_image_def)

lemma filter_graph_Filter:
  assumes "Filter d p = Inr out"
  shows "\<exists>mu du su. magnifyingDisplacementMapDataUrl d p = Inr mu
           \<and> displacementMapDataUrl d p = Inr du
           \<and> specularLayerDataUrl d p = Inr su
           \<and> filter_graph out = filter_graph (content d p mu du su)"
  using assms
  by (auto simp: Filter_def content_def split: sum.splits if_splits)

lemma length_specular_stage: "length (specular_stage p) = 4"
  by (simp add: specular_stage_def)

lemma terminal_stage_content:
  "terminal_stage (filter_graph (content d p mu du su)) = specular_stage p"
proof -
  define pre where "pre = primitives (magnifying_stage p mu) @ primitives (color_stage p mu)
     @ [blur_stage p mu] @ dispersion_stage d p du @ overlay_stage
     @ [saturation_stage p, specular_image p su]"
  have g: "filter_graph (content d p mu du su) = pre @ specular_stage p"
    by (simp add: filter_graph_content pre_def)
  have "length (pre @ specular_stage p) - 4 = length pre"
    by (simp add: length_specular_stage)
  then show ?thesis
    unfolding terminal_stage_def g by simp
qed

text \<open>A truthy \<^verbatim>\<open>magnifyingScale\<close> is not \<^verbatim>\<open>undefined\<close>, so the image the first data
  URL encodes exists: no render throws the \<^verbatim>\<open>TypeError\<close>.\<close>

lemma magnifyingDisplacementMapDataUrl_truthy:
  assumes "truthy (magnifyingScale p)"
  shows "magnifyingDisplacementMapDataUrl d p =
     (case imageDataToUrl d
             (calculateMagnifyingDisplacementMap d
                (getValueOrMotion (canvasWidth_or_width p))
                (getValueOrMotion (canvasHeight_or_height p))) of
        Inl e \<Rightarrow> Inl e
      | Inr url \<Rightarrow> Inr (Some url))"
  using assms
  by (cases "magnifyingScale p")
     (simp_all add: magnifyingDisplacementMapDataUrl_def magnifyingDisplacementMap_def)

lemma Filter_never_TypeError: "Filter d p \<noteq> Inl TypeError"
proof (cases "truthy (magnifyingScale p)")
  case True
  then show ?thesis
    by (auto simp: Filter_def magnifyingDisplacementMapDataUrl_truthy displacementMapDataUrl_def
        specularLayerDataUrl_def imageDataToUrl_def split: sum.splits if_splits)
next
  case False
  then show ?thesis
    by (auto simp: Filter_def magnifyingDisplacementMapDataUrl_def displacementMapDataUrl_def
        specularLayerDataUrl_def imageDataToUrl_def split: sum.splits if_splits)
qed

lemma magnifying_url_sample:
  "magnifyingDisplacementMapDataUrl sample_deps p =
     Inr (if truthy (magnifyingScale p) then Some ''data:magnifying'' else None)"
proof (cases "truthy (magnifyingScale p)")
  case True
  then show ?thesis
    by (simp add: magnifyingDisplacementMapDataUrl_truthy imageDataToUrl_def sample_deps_def)
next
  case False
  then show ?thesis by (simp add: magnifyingDisplacementMapDataUrl_def)
qed

text \<open>A render returns whenever the canvas gives a context for every image.\<close>

lemma Filter_returns:
  assumes "\<And>imageData. canvas_getContext d imageData"
  shows "\<exists>out. Filter d p = Inr out"
proof (cases "truthy (magnifyingScale p)")
  case True
  then show ?thesis
    by (simp add: Filter_def magnifyingDisplacementMapDataUrl_truthy displacementMapDataUrl_def
        specularLayerDataUrl_def imageDataToUrl_def assms)
next
  case False
  then show ?thesis
    by (simp add: Filter_def magnifyingDisplacementMapDataUrl_def displacementMapDataUrl_def
        specularLayerDataUrl_def imageDataToUrl_def assms)
qed

lemma Filter_sample:
  "Filter sample_deps p =
     Inr (if withSvgWrapper_prop p
          then Element ''svg''
                 [(''colorInterpolationFilters'', S ''sRGB''), (''style'', S ''display:none'')]
                 [Element ''defs'' []
                    [content sample_deps p
                       (if truthy (magnifyingScale p) then Some ''data:magnifying'' else None)
                       ''data:displacement'' ''data:specular'']]
          else content sample_deps p
                 (if truthy (magnifyingScale p) then Some ''data:magnifying'' else None)
                 ''data:displacement'' ''data:specular'')"
  by (simp add: Filter_def magnifying_url_sample displacementMapDataUrl_def
        specularLayerDataUrl_def imageDataToUrl_def)
     (simp add: sample_deps_def displacementMap_def specularLayer_def)

lemma emitted_graph_sample:
  "emitted_graph sample_deps p =
     Some (filter_graph (content sample_deps p
             (if truthy (magnifyingScale p) then Some ''data:magnifying'' else None)
             ''data:displacement'' ''data:specular''))"
  by (simp add: emitted_graph_def Filter_sample)

lemmas stage_defs = magnifying_stage_def color_stage_def blur_stage_def dispersion_stage_def
  overlay_stage_def saturation_stage_def specular_image_def specular_stage_def
  channel_split_def channel_displacement_def

section \<open>References and declarations\<close>

text \<open>The graph is well formed exactly when \<^verbatim>\<open>magnifyingScale\<close> is truthy: the blur (or the
  colour matrix before it) reads \<^verbatim>\<open>magnified_source\<close> whatever the props are, and only the
  magnification stage declares that name.\<close>

lemma well_formed_content:
  "well_formed (filter_graph (content d p mu du su)) = truthy (magnifyingScale p)"
proof (cases "magnifyingScale p")
  case None
  then show ?thesis
    by (cases "colorScheme p")
       (simp_all add: filter_graph_content stage_defs well_formed_def reserved_sources_def
          motion_value_truthy_def)
next
  case (Some ms)
  then show ?thesis
    by (cases "colorScheme p"; cases "truthy (Some ms)"; cases mu)
       (simp_all add: filter_graph_content stage_defs well_formed_def reserved_sources_def
          motion_value_truthy_def)
qed

lemma Filter_well_formed_iff:
  assumes "Filter d p = Inr out"
  shows "well_formed (filter_graph out) = truthy (magnifyingScale p)"
  using filter_graph_Filter [OF assms] by (auto simp: well_formed_content)

text \<open>
  C1. Every \<^verbatim>\<open>in\<close>/\<^verbatim>\<open>in2\<close> reference of the emitted graph should resolve to a reserved
  source token or to the result of an earlier node, for every combination of the optional
  stages. It does not: with the props the slider passes (no magnification, no colour
  scheme) the blur node reads \<^verbatim>\<open>magnified_source\<close>, which no node of the graph declares,
  and the graph is not well formed.
\<close>

theorem Filter_slider_undeclared_reference:
  "map_option well_formed (emitted_graph sample_deps slider_props) = Some False
   \<and> emitted_attribute sample_deps slider_props ''blurred_source'' ''in''
       = Some (S ''magnified_source'')
   \<and> emitted_graph sample_deps slider_props \<noteq> None
   \<and> emitted_node sample_deps slider_props ''magnified_source'' = None"
proof (intro conjI)
  show "map_option well_formed (emitted_graph sample_deps slider_props) = Some False"
    by (simp add: emitted_graph_sample well_formed_content slider_props_def)
  show "emitted_attribute sample_deps slider_props ''blurred_source'' ''in''
       = Some (S ''magnified_source'')"
    by (simp add: emitted_attribute_def emitted_node_def emitted_graph_sample)
       (simp add: filter_graph_content node_named_def stage_defs slider_props_def
          motion_value_truthy_def)
  show "emitted_graph sample_deps slider_props \<noteq> None"
    by (simp add: emitted_graph_sample)
  show "emitted_node sample_deps slider_props ''magnified_source'' = None"
    by (simp add: emitted_node_def emitted_graph_sample)
       (simp add: filter_graph_content node_named_def stage_defs slider_props_def)
qed

section \<open>Dispersion scales\<close>

lemma js_times_one: "js_times x (Fin 1) = x"
  by (cases x) simp_all

lemma bezel_displacements_content:
  "bezel_displacements (filter_graph (content d p mu du su)) =
     [(Some (S ''red_channel''), Some (N (js_times (scale d p) (Fin 0.8)))),
      (Some (S ''green_channel''), Some (N (js_times (scale d p) (Fin 0.9)))),
      (Some (S ''blue_channel''), Some (N (scale d p)))]"
  by (cases "magnifyingScale p"; cases "colorScheme p"; cases mu; cases "truthy (magnifyingScale p)")
     (simp_all add: filter_graph_content stage_defs bezel_displacements_def)

lemma maximumDisplacement_sample:
  "bezelHeightFn p = None \<Longrightarrow> maximumDisplacement (map_field sample_deps p) = Fin 3"
  by (simp add: maximumDisplacement_def Math_max_def map_field_def sample_deps_def
      bezelHeightFn_prop_def)

text \<open>
  C4. For every maximum displacement and every scale ratio \<open>r\<close> the caller supplies, the
  three displacements by the bezel bitmap are those of the red, green and blue channel
  copies, with scales \<open>(maximumDisplacement * r) * 0.8\<close>, \<open>(maximumDisplacement * r) * 0.9\<close>
  and \<open>(maximumDisplacement * r) * 1.0\<close>: the multipliers 0.8 : 0.9 : 1.0 do not depend
  on \<open>r\<close>.
\<close>

theorem dispersion_scales:
  assumes "Filter d p = Inr out" and "scaleRatio p = Some r"
  shows "bezel_displacements (filter_graph out) =
     [(Some (S ''red_channel''),
       Some (N (js_times (js_times (maximumDisplacement (map_field d p)) (Fin r)) (Fin 0.8)))),
      (Some (S ''green_channel''),
       Some (N (js_times (js_times (maximumDisplacement (map_field d p)) (Fin r)) (Fin 0.9)))),
      (Some (S ''blue_channel''),
       Some (N (js_times (js_times (maximumDisplacement (map_field d p)) (Fin r)) (Fin 1.0))))]"
proof -
  from filter_graph_Filter [OF assms(1)] obtain mu du su
    where g: "filter_graph out = filter_graph (content d p mu du su)" by blast
  have "scale d p = js_times (maximumDisplacement (map_field d p)) (Fin r)"
    by (simp add: scale_def assms(2))
  then show ?thesis
    by (simp add: g bezel_displacements_content js_times_one)
qed

theorem dispersion_scales_witness:
  "\<exists>out. Filter sample_deps switch_props = Inr out \<and> scaleRatio switch_props = Some 0.4
     \<and> bezel_displacements (filter_graph out) =
         [(Some (S ''red_channel''), Some (N (Fin 0.96))),
          (Some (S ''green_channel''), Some (N (Fin 1.08))),
          (Some (S ''blue_channel''), Some (N (Fin 1.2)))]"
proof -
  obtain out where out: "Filter sample_deps switch_props = Inr out"
    by (simp add: Filter_sample)
  have r: "scaleRatio switch_props = Some 0.4" by (simp add: switch_props_def)
  have m: "maximumDisplacement (map_field sample_deps switch_props) = Fin 3"
    by (simp add: maximumDisplacement_sample switch_props_def)
  from dispersion_scales [OF out r] show ?thesis
    by (simp add: out r m)
qed

section \<open>Nodes by result name\<close>

lemma optional_stage_results:
  assumes "n \<in> set (primitives (magnifying_stage p mu) @ primitives (color_stage p mu))"
  shows "attribute n ''result'' \<in>
           {Some (S ''magnifying_displacement_map''), Some (S ''magnified_source''),
            Some (S ''brightened_source'')}"
  using assms
  by (cases mu)
     (auto simp: magnifying_stage_def color_stage_def split: option.splits if_splits)

lemma find_append_None: "find P xs = None \<Longrightarrow> find P (xs @ ys) = find P ys"
  by (induction xs) (auto split: if_splits)

lemma node_named_content:
  assumes "r \<noteq> ''magnifying_displacement_map''" "r \<noteq> ''magnified_source''"
    "r \<noteq> ''brightened_source''"
  shows "node_named (filter_graph (content d p mu du su)) r =
         node_named ([blur_stage p mu] @ dispersion_stage d p du @ overlay_stage
                     @ [saturation_stage p, specular_image p su] @ specular_stage p) r"
proof -
  have "find (\<lambda>n. attribute n ''result'' = Some (S r))
          (primitives (magnifying_stage p mu) @ primitives (color_stage p mu)) = None"
    using optional_stage_results [of _ p mu] assms by (fastforce simp: find_None_iff)
  from find_append_None [OF this] show ?thesis
    by (simp add: node_named_def filter_graph_content)
qed

lemma emitted_node_sample:
  assumes "r \<noteq> ''magnifying_displacement_map''" "r \<noteq> ''magnified_source''"
    "r \<noteq> ''brightened_source''"
  shows "emitted_node sample_deps p r =
     node_named ([blur_stage p (if truthy (magnifyingScale p) then Some ''data:magnifying'' else None)]
                 @ dispersion_stage sample_deps p ''data:displacement'' @ overlay_stage
                 @ [saturation_stage p, specular_image p ''data:specular''] @ specular_stage p) r"
  by (simp only: emitted_node_def emitted_graph_sample Option.bind.simps node_named_content [OF assms])

section \<open>Defaults of omitted props\<close>

text \<open>
  C9. When the caller omits \<^verbatim>\<open>scaleRatio\<close>, \<^verbatim>\<open>scale\<close> is the maximum displacement
  itself, and that is the scale of the displacement of the blue channel copy: the absent
  ratio behaves as the multiplier 1.
\<close>

theorem absent_scaleRatio_is_one:
  assumes "Filter d p = Inr out" and "scaleRatio p = None"
  shows "scale d p = maximumDisplacement (map_field d p)
     \<and> (\<exists>n. node_named (filter_graph out) ''displaced_blue'' = Some n
            \<and> tag_of n = ''feDisplacementMap''
            \<and> attribute n ''in'' = Some (S ''blue_channel'')
            \<and> attribute n ''in2'' = Some (S ''displacement_map'')
            \<and> attribute n ''scale'' = Some (N (maximumDisplacement (map_field d p))))"
proof -
  from filter_graph_Filter [OF assms(1)] obtain mu du su
    where g: "filter_graph out = filter_graph (content d p mu du su)" by blast
  have s: "scale d p = maximumDisplacement (map_field d p)"
    by (simp add: scale_def assms(2) js_times_one)
  show ?thesis
    by (simp add: g node_named_content s)
       (simp add: node_named_def stage_defs s)
qed

theorem absent_scaleRatio_is_one_witness:
  "\<exists>out. Filter sample_deps (slider_props\<lparr>scaleRatio := None\<rparr>) = Inr out
     \<and> scaleRatio (slider_props\<lparr>scaleRatio := None\<rparr>) = None
     \<and> scale sample_deps (slider_props\<lparr>scaleRatio := None\<rparr>) = Fin 3
     \<and> map_option (\<lambda>n. attribute n ''scale'') (node_named (filter_graph out) ''displaced_blue'')
         = Some (Some (N (Fin 3)))"
proof -
  obtain out where out: "Filter sample_deps (slider_props\<lparr>scaleRatio := None\<rparr>) = Inr out"
    by (simp add: Filter_sample)
  have r: "scaleRatio (slider_props\<lparr>scaleRatio := None\<rparr>) = None" by simp
  have m: "maximumDisplacement (map_field sample_deps (slider_props\<lparr>scaleRatio := None\<rparr>)) = Fin 3"
    by (simp add: maximumDisplacement_sample slider_props_def)
  from absent_scaleRatio_is_one [OF out r] show ?thesis
    by (auto simp: out m)
qed

text \<open>
  C8. When the caller omits \<^verbatim>\<open>specularSaturation\<close>, the \<^verbatim>\<open>values\<close> of the saturate
  colour matrix are the number 4 (printed); when the caller omits \<^verbatim>\<open>bezelHeightFn\<close>,
  the 1-D field is computed with the convex profile \<^verbatim>\<open>CONVEX.fn\<close>.
\<close>

theorem omitted_props_defaults:
  assumes "Filter d (p\<lparr>specularSaturation := None\<rparr>) = Inr out"
  shows "(\<exists>n. node_named (filter_graph out) ''displaced_saturated'' = Some n
            \<and> tag_of n = ''feColorMatrix''
            \<and> attribute n ''type'' = Some (S ''saturate'')
            \<and> attribute n ''values'' = Some (NumString 4))
     \<and> map_field d (p\<lparr>bezelHeightFn := None\<rparr>) =
         calculateDisplacementMap d (getValueOrMotion (glassThickness p))
           (getValueOrMotion (bezelWidth p)) (CONVEX_fn d) (getValueOrMotion (refractiveIndex p))"
proof -
  from filter_graph_Filter [OF assms(1)] obtain mu du su
    where g: "filter_graph out = filter_graph (content d (p\<lparr>specularSaturation := None\<rparr>) mu du su)"
    by blast
  show ?thesis
    by (simp add: g node_named_content map_field_def bezelHeightFn_prop_def)
       (simp add: node_named_def stage_defs specularSaturation_prop_def)
qed

theorem omitted_props_defaults_witness:
  "\<exists>out. Filter sample_deps (switch_props\<lparr>specularSaturation := None\<rparr>) = Inr out
     \<and> map_option (\<lambda>n. attribute n ''values'')
          (node_named (filter_graph out) ''displaced_saturated'') = Some (Some (NumString 4))
     \<and> map_field sample_deps (switch_props\<lparr>bezelHeightFn := None\<rparr>) = [0, - 3, 2]"
proof -
  obtain out where out: "Filter sample_deps (switch_props\<lparr>specularSaturation := None\<rparr>) = Inr out"
    by (simp add: Filter_sample)
  have f: "map_field sample_deps (switch_props\<lparr>bezelHeightFn := None\<rparr>) = [0, - 3, 2]"
    by (simp add: map_field_def sample_deps_def bezelHeightFn_prop_def)
  from omitted_props_defaults [OF out] show ?thesis
    by (auto simp: out f)
qed

section \<open>The number 0 as magnifying scale\<close>

text \<open>The child the condition leaves differs (the number 0, which React renders as text,
  against nothing), the primitives do not.\<close>

lemma magnifying_stage_zero:
  "magnifying_stage (p\<lparr>magnifyingScale := Some (Literal 0)\<rparr>) mu = NumberChild 0"
  "magnifying_stage (p\<lparr>magnifyingScale := None\<rparr>) mu = Nothing"
  by (simp_all add: magnifying_stage_def)

lemma urls_ignore_magnifyingScale:
  "displacementMapDataUrl d (p\<lparr>magnifyingScale := x\<rparr>) = displacementMapDataUrl d p"
  "specularLayerDataUrl d (p\<lparr>magnifyingScale := x\<rparr>) = specularLayerDataUrl d p"
  by (simp_all add: displacementMapDataUrl_def specularLayerDataUrl_def displacementMap_def
      specularLayer_def map_field_def bezelHeightFn_prop_def canvasWidth_or_width_def
      canvasHeight_or_height_def cong: option.case_cong)

lemma content_magnifyingScale_zero:
  "filter_graph (content d (p\<lparr>magnifyingScale := Some (Literal 0)\<rparr>) None du su) =
   filter_graph (content d (p\<lparr>magnifyingScale := None\<rparr>) None du su)"
  by (simp add: filter_graph_content stage_defs scale_def map_field_def bezelHeightFn_prop_def
      canvasWidth_or_width_def canvasHeight_or_height_def specularSaturation_prop_def
      cong: option.case_cong)

lemma Filter_magnifyingScale_zero:
  "map_sum id filter_graph (Filter d (p\<lparr>magnifyingScale := Some (Literal 0)\<rparr>)) =
   map_sum id filter_graph (Filter d (p\<lparr>magnifyingScale := None\<rparr>))"
proof (cases "displacementMapDataUrl d p")
  case (Inl e)
  then show ?thesis
    by (simp add: Filter_def magnifyingDisplacementMapDataUrl_def urls_ignore_magnifyingScale)
next
  case du: (Inr du)
  show ?thesis
  proof (cases "specularLayerDataUrl d p")
    case (Inl e)
    with du show ?thesis
      by (simp add: Filter_def magnifyingDisplacementMapDataUrl_def urls_ignore_magnifyingScale)
  next
    case (Inr su)
    with du show ?thesis
      using content_magnifyingScale_zero [of d p du su]
      by (simp add: Filter_def magnifyingDisplacementMapDataUrl_def urls_ignore_magnifyingScale
          withSvgWrapper_prop_def)
  qed
qed

text \<open>
  C10. When \<^verbatim>\<open>magnifyingScale\<close> is the number 0, the render fails or succeeds as it does
  when \<^verbatim>\<open>magnifyingScale\<close> is absent, and with the same graph; no data URL of the
  magnifying bitmap is produced; and the graph has no node that declares
  \<^verbatim>\<open>magnifying_displacement_map\<close> or \<^verbatim>\<open>magnified_source\<close>, and none that displaces by
  the magnifying bitmap.
\<close>

theorem magnifyingScale_zero_omits_stage:
  "map_sum id filter_graph (Filter d (p\<lparr>magnifyingScale := Some (Literal 0)\<rparr>)) =
   map_sum id filter_graph (Filter d (p\<lparr>magnifyingScale := None\<rparr>))
   \<and> magnifyingDisplacementMapDataUrl d (p\<lparr>magnifyingScale := Some (Literal 0)\<rparr>) = Inr None
   \<and> (\<forall>out. Filter d (p\<lparr>magnifyingScale := Some (Literal 0)\<rparr>) = Inr out \<longrightarrow>
         node_named (filter_graph out) ''magnifying_displacement_map'' = None
         \<and> node_named (filter_graph out) ''magnified_source'' = None
         \<and> list_all (\<lambda>n. attribute n ''in2'' \<noteq> Some (S ''magnifying_displacement_map''))
              (filter_graph out))"
proof (intro conjI allI impI)
  show "map_sum id filter_graph (Filter d (p\<lparr>magnifyingScale := Some (Literal 0)\<rparr>)) =
        map_sum id filter_graph (Filter d (p\<lparr>magnifyingScale := None\<rparr>))"
    by (rule Filter_magnifyingScale_zero)
next
  show "magnifyingDisplacementMapDataUrl d (p\<lparr>magnifyingScale := Some (Literal 0)\<rparr>) = Inr None"
    by (simp add: magnifyingDisplacementMapDataUrl_def)
next
  fix out
  assume out: "Filter d (p\<lparr>magnifyingScale := Some (Literal 0)\<rparr>) = Inr out"
  from filter_graph_Filter [OF out] obtain mu du su where
    g: "filter_graph out = filter_graph (content d (p\<lparr>magnifyingScale := Some (Literal 0)\<rparr>) mu du su)"
    by blast
  show "node_named (filter_graph out) ''magnifying_displacement_map'' = None"
    by (cases "colorScheme p")
       (simp_all add: g filter_graph_content stage_defs node_named_def)
  show "node_named (filter_graph out) ''magnified_source'' = None"
    by (cases "colorScheme p")
       (simp_all add: g filter_graph_content stage_defs node_named_def)
  show "list_all (\<lambda>n. attribute n ''in2'' \<noteq> Some (S ''magnifying_displacement_map''))
          (filter_graph out)"
    by (cases "colorScheme p")
       (simp_all add: g filter_graph_content stage_defs)
qed

theorem magnifyingScale_zero_omits_stage_witness:
  "\<exists>out. Filter sample_deps (switch_props\<lparr>magnifyingScale := Some (Literal 0)\<rparr>) = Inr out
     \<and> Filter sample_deps (switch_props\<lparr>magnifyingScale := None\<rparr>)
         = Inr (Element ''svg''
                 [(''colorInterpolationFilters'', S ''sRGB''), (''style'', S ''display:none'')]
                 [Element ''defs'' [] [content sample_deps (switch_props\<lparr>magnifyingScale := None\<rparr>) None ''data:displacement'' ''data:specular'']])
     \<and> node_named (filter_graph out) ''magnifying_displacement_map'' = None
     \<and> node_named (filter_graph out) ''magnified_source'' = None
     \<and> length (filter_graph out) = 19"
proof -
  obtain out where
    out: "Filter sample_deps (switch_props\<lparr>magnifyingScale := Some (Literal 0)\<rparr>) = Inr out"
    by (simp add: Filter_sample)
  have n: "Filter sample_deps (switch_props\<lparr>magnifyingScale := None\<rparr>)
         = Inr (Element ''svg''
                 [(''colorInterpolationFilters'', S ''sRGB''), (''style'', S ''display:none'')]
                 [Element ''defs'' [] [content sample_deps (switch_props\<lparr>magnifyingScale := None\<rparr>) None ''data:displacement'' ''data:specular'']])"
    by (simp add: Filter_sample withSvgWrapper_prop_def switch_props_def)
  note zero = magnifyingScale_zero_omits_stage [of sample_deps switch_props]
  from zero out have nn:
    "node_named (filter_graph out) ''magnifying_displacement_map'' = None"
    "node_named (filter_graph out) ''magnified_source'' = None"
    by blast+
  from zero have "map_sum id filter_graph (Filter sample_deps (switch_props\<lparr>magnifyingScale := Some (Literal 0)\<rparr>)) =
      map_sum id filter_graph (Filter sample_deps (switch_props\<lparr>magnifyingScale := None\<rparr>))"
    by blast
  then have g: "filter_graph out = filter_graph (content sample_deps (switch_props\<lparr>magnifyingScale := None\<rparr>) None ''data:displacement'' ''data:specular'')"
    by (simp add: out n)
  have "length (filter_graph (content sample_deps (switch_props\<lparr>magnifyingScale := None\<rparr>) None ''data:displacement'' ''data:specular'')) = 19"
    by (simp add: filter_graph_content stage_defs switch_props_def)
  then have len: "length (filter_graph out) = 19" by (simp only: g)
  from out n nn len show ?thesis by blast
qed

section \<open>What the bitmaps depend on\<close>

text \<open>
  C6. Two evaluations whose props differ only in \<^verbatim>\<open>blur\<close>, \<^verbatim>\<open>specularOpacity\<close>,
  \<^verbatim>\<open>specularSaturation\<close>, \<^verbatim>\<open>scaleRatio\<close> and \<^verbatim>\<open>colorScheme\<close> compute the same 1-D
  displacement field, the same displacement bitmap and the same specular bitmap.
\<close>

theorem bitmaps_ignore_scalar_controls:
  "map_field d (p\<lparr>blur := b, specularOpacity := so, specularSaturation := ss,
                   scaleRatio := sr, colorScheme := cs\<rparr>) = map_field d p
   \<and> displacementMap d (p\<lparr>blur := b, specularOpacity := so, specularSaturation := ss,
                   scaleRatio := sr, colorScheme := cs\<rparr>) = displacementMap d p
   \<and> specularLayer d (p\<lparr>blur := b, specularOpacity := so, specularSaturation := ss,
                   scaleRatio := sr, colorScheme := cs\<rparr>) = specularLayer d p"
  by (simp add: map_field_def displacementMap_def specularLayer_def bezelHeightFn_prop_def
      canvasWidth_or_width_def canvasHeight_or_height_def cong: option.case_cong)

section \<open>The specular stage\<close>

lemmas image_defs = primitive_image_def input_image_def alpha_slope_def bind_result_def

lemma render_specular_stage:
  assumes "env ''displaced'' = Some dp" "env ''displaced_saturated'' = Some ds"
    "env ''specular_layer'' = Some sp"
  shows "render env (specular_stage p) =
     Some (\<lambda>pos. blend_normal
                   (transfer_alpha_linear (getValueOrMotion (specularOpacity p)) (sp pos))
                   (blend_normal (composite_in (ds pos) (sp pos)) (dp pos)))"
  using assms by (simp add: specular_stage_def image_defs)

lemma render_withSaturation:
  assumes "env ''displaced'' = Some dp" "env ''displaced_saturated'' = Some ds"
    "env ''specular_layer'' = Some sp"
  shows "render env (butlast (specular_stage p)) =
     Some (\<lambda>pos. blend_normal (composite_in (ds pos) (sp pos)) (dp pos))"
  using assms by (simp add: specular_stage_def image_defs)

lemma transfer_alpha_linear_zero: "transfer_alpha_linear 0 px = Pixel 0 0 0 0"
  by (simp add: transfer_alpha_linear_def clamp01_def)

lemma blend_normal_transparent: "blend_normal (Pixel 0 0 0 0) b = b"
  by (cases b) (simp add: blend_normal_def)

text \<open>
  C2, as the code has it. The last four nodes of every graph are: a composite with
  operator \<^verbatim>\<open>in\<close> whose source is the displaced-saturated composite and whose mask is
  the specular bitmap (the image is the saturated composite inside the alpha shape of the
  specular bitmap); the fade of the alpha of the raw specular layer by
  \<^verbatim>\<open>specularOpacity\<close>; the blend of the masked composite over the displaced result;
  and the blend of the faded specular layer over that, both in mode \<^verbatim>\<open>normal\<close>, the
  last one being the output.
\<close>

theorem specular_stage_of_graph:
  assumes "Filter d p = Inr out"
    and "env ''displaced'' = Some dp" and "env ''displaced_saturated'' = Some ds"
    and "env ''specular_layer'' = Some sp"
  shows "terminal_stage (filter_graph out) =
     [Element ''feComposite''
        [(''in'', S ''displaced_saturated''), (''in2'', S ''specular_layer''),
         (''operator'', S ''in''), (''result'', S ''specular_saturated'')] [],
      Element ''feComponentTransfer''
        [(''in'', S ''specular_layer''), (''result'', S ''specular_faded'')]
        [Element ''feFuncA''
           [(''type'', S ''linear''),
            (''slope'', N (Fin (getValueOrMotion (specularOpacity p))))] []],
      Element ''feBlend''
        [(''in'', S ''specular_saturated''), (''in2'', S ''displaced''),
         (''mode'', S ''normal''), (''result'', S ''withSaturation'')] [],
      Element ''feBlend''
        [(''in'', S ''specular_faded''), (''in2'', S ''withSaturation''),
         (''mode'', S ''normal'')] []]
   \<and> render env (take 1 (terminal_stage (filter_graph out))) =
       Some (\<lambda>pos. composite_in (ds pos) (sp pos))
   \<and> render env (terminal_stage (filter_graph out)) =
       Some (\<lambda>pos. blend_normal
                     (transfer_alpha_linear (getValueOrMotion (specularOpacity p)) (sp pos))
                     (blend_normal (composite_in (ds pos) (sp pos)) (dp pos)))"
proof -
  from filter_graph_Filter [OF assms(1)] obtain mu du su
    where g: "filter_graph out = filter_graph (content d p mu du su)" by blast
  have t: "terminal_stage (filter_graph out) = specular_stage p"
    by (simp add: g terminal_stage_content)
  have "render env (take 1 (specular_stage p)) = Some (\<lambda>pos. composite_in (ds pos) (sp pos))"
    using assms(2-4) by (simp add: specular_stage_def image_defs)
  then show ?thesis
    unfolding t render_specular_stage [OF assms(2-4)]
    by (simp add: specular_stage_def)
qed

theorem specular_stage_of_graph_witness:
  "\<exists>out. Filter sample_deps switch_props = Inr out
     \<and> sample_env (Pixel 0.5 0.5 0.5 0.5) ''displaced'' = Some (\<lambda>pos. Pixel 0.2 0.4 0.6 1)
     \<and> sample_env (Pixel 0.5 0.5 0.5 0.5) ''displaced_saturated'' = Some (\<lambda>pos. Pixel 0 0.4 1 1)
     \<and> sample_env (Pixel 0.5 0.5 0.5 0.5) ''specular_layer'' = Some (\<lambda>pos. Pixel 0.5 0.5 0.5 0.5)
     \<and> length (terminal_stage (filter_graph out)) = 4
     \<and> render (sample_env (Pixel 0.5 0.5 0.5 0.5)) (take 1 (terminal_stage (filter_graph out))) =
         Some (\<lambda>pos. Pixel 0 0.2 0.5 0.5)
     \<and> render (sample_env (Pixel 0.5 0.5 0.5 0.5)) (terminal_stage (filter_graph out)) =
         Some (\<lambda>pos. Pixel 0.325 0.55 0.85 1)"
proof -
  obtain out where out: "Filter sample_deps switch_props = Inr out"
    by (simp add: Filter_sample)
  have e: "sample_env (Pixel 0.5 0.5 0.5 0.5) ''displaced'' = Some (\<lambda>pos. Pixel 0.2 0.4 0.6 1)"
    "sample_env (Pixel 0.5 0.5 0.5 0.5) ''displaced_saturated'' = Some (\<lambda>pos. Pixel 0 0.4 1 1)"
    "sample_env (Pixel 0.5 0.5 0.5 0.5) ''specular_layer'' = Some (\<lambda>pos. Pixel 0.5 0.5 0.5 0.5)"
    by (simp_all add: sample_env_def)
  have o: "getValueOrMotion (specularOpacity switch_props) = 0.5"
    by (simp add: switch_props_def)
  note s = specular_stage_of_graph [OF out e, unfolded o]
  from s have "length (terminal_stage (filter_graph out)) = 4" by simp
  moreover from s have
    "render (sample_env (Pixel 0.5 0.5 0.5 0.5)) (take 1 (terminal_stage (filter_graph out))) =
       Some (\<lambda>pos. composite_in (Pixel 0 0.4 1 1) (Pixel 0.5 0.5 0.5 0.5))"
    by blast
  moreover from s have
    "render (sample_env (Pixel 0.5 0.5 0.5 0.5)) (terminal_stage (filter_graph out)) =
       Some (\<lambda>pos. blend_normal (transfer_alpha_linear 0.5 (Pixel 0.5 0.5 0.5 0.5))
                     (blend_normal (composite_in (Pixel 0 0.4 1 1) (Pixel 0.5 0.5 0.5 0.5))
                        (Pixel 0.2 0.4 0.6 1)))"
    by blast
  ultimately show ?thesis
    using out e
    by (simp add: composite_in_def blend_normal_def transfer_alpha_linear_def clamp01_def)
qed

text \<open>
  C2, as it is stated, has the specular bitmap masked to the alpha shape of the
  displaced-saturated composite. On the props of the switch the composite reads the two
  the other way round, and where the specular layer is half-transparent white over an
  opaque saturated composite its image is the saturated colour at half alpha, not the
  white of the specular bitmap.
\<close>

theorem specular_not_masked_by_composite:
  "emitted_attribute sample_deps switch_props ''specular_saturated'' ''in''
     = Some (S ''displaced_saturated'')
   \<and> emitted_attribute sample_deps switch_props ''specular_saturated'' ''in2''
       = Some (S ''specular_layer'')
   \<and> pixel_of (sample_env (Pixel 0.5 0.5 0.5 0.5) ''specular_layer'') (0, 0)
       = Some (Pixel 0.5 0.5 0.5 0.5)
   \<and> pixel_of (sample_env (Pixel 0.5 0.5 0.5 0.5) ''displaced_saturated'') (0, 0)
       = Some (Pixel 0 0.4 1 1)
   \<and> node_pixel sample_deps switch_props (sample_env (Pixel 0.5 0.5 0.5 0.5))
        ''specular_saturated'' (0, 0) = Some (Pixel 0 0.2 0.5 0.5)
   \<and> node_pixel sample_deps switch_props (sample_env (Pixel 0.5 0.5 0.5 0.5))
        ''specular_saturated'' (0, 0)
       \<noteq> Some (composite_in (Pixel 0.5 0.5 0.5 0.5) (Pixel 0 0.4 1 1))"
proof -
  have n: "emitted_node sample_deps switch_props ''specular_saturated''
      = Some (specular_stage switch_props ! 0)"
    by (simp add: emitted_node_sample) (simp add: node_named_def stage_defs)
  have "node_pixel sample_deps switch_props (sample_env (Pixel 0.5 0.5 0.5 0.5))
        ''specular_saturated'' (0, 0) = Some (Pixel 0 0.2 0.5 0.5)"
    by (simp add: node_pixel_def n specular_stage_def image_defs sample_env_def pixel_of_def
        composite_in_def)
  then show ?thesis
    by (simp add: emitted_attribute_def n specular_stage_def pixel_of_def sample_env_def
        composite_in_def)
qed

text \<open>
  C3, as the code has it. With \<^verbatim>\<open>specularOpacity\<close> 0 the image of the terminal blend is
  the image of the node before it, \<^verbatim>\<open>withSaturation\<close>: the saturated composite inside
  the alpha shape of the specular bitmap, over the displaced result. Only the faded raw
  specular layer contributes nothing.
\<close>

theorem zero_opacity_output:
  assumes "Filter d p = Inr out" and "getValueOrMotion (specularOpacity p) = 0"
    and "env ''displaced'' = Some dp" and "env ''displaced_saturated'' = Some ds"
    and "env ''specular_layer'' = Some sp"
  shows "render env (terminal_stage (filter_graph out)) =
           Some (\<lambda>pos. blend_normal (composite_in (ds pos) (sp pos)) (dp pos))
     \<and> render env (terminal_stage (filter_graph out)) =
         render env (butlast (terminal_stage (filter_graph out)))"
proof -
  from filter_graph_Filter [OF assms(1)] obtain mu du su
    where g: "filter_graph out = filter_graph (content d p mu du su)" by blast
  have t: "terminal_stage (filter_graph out) = specular_stage p"
    by (simp add: g terminal_stage_content)
  show ?thesis
    unfolding t render_specular_stage [OF assms(3-5)] render_withSaturation [OF assms(3-5)]
    by (simp add: assms(2) transfer_alpha_linear_zero blend_normal_transparent)
qed

theorem zero_opacity_output_witness:
  "\<exists>out. Filter sample_deps (slider_props\<lparr>specularOpacity := Literal 0\<rparr>) = Inr out
     \<and> getValueOrMotion (specularOpacity (slider_props\<lparr>specularOpacity := Literal 0\<rparr>)) = 0
     \<and> sample_env (Pixel 1 1 1 1) ''displaced'' = Some (\<lambda>pos. Pixel 0.2 0.4 0.6 1)
     \<and> sample_env (Pixel 1 1 1 1) ''displaced_saturated'' = Some (\<lambda>pos. Pixel 0 0.4 1 1)
     \<and> sample_env (Pixel 1 1 1 1) ''specular_layer'' = Some (\<lambda>pos. Pixel 1 1 1 1)
     \<and> render (sample_env (Pixel 1 1 1 1)) (terminal_stage (filter_graph out)) =
         Some (\<lambda>pos. Pixel 0 0.4 1 1)"
proof -
  obtain out where out: "Filter sample_deps (slider_props\<lparr>specularOpacity := Literal 0\<rparr>) = Inr out"
    by (simp add: Filter_sample)
  have z: "getValueOrMotion (specularOpacity (slider_props\<lparr>specularOpacity := Literal 0\<rparr>)) = 0"
    by simp
  have e: "sample_env (Pixel 1 1 1 1) ''displaced'' = Some (\<lambda>pos. Pixel 0.2 0.4 0.6 1)"
    "sample_env (Pixel 1 1 1 1) ''displaced_saturated'' = Some (\<lambda>pos. Pixel 0 0.4 1 1)"
    "sample_env (Pixel 1 1 1 1) ''specular_layer'' = Some (\<lambda>pos. Pixel 1 1 1 1)"
    by (simp_all add: sample_env_def)
  from zero_opacity_output [OF out z e] have
    "render (sample_env (Pixel 1 1 1 1)) (terminal_stage (filter_graph out)) =
       Some (\<lambda>pos. blend_normal (composite_in (Pixel 0 0.4 1 1) (Pixel 1 1 1 1)) (Pixel 0.2 0.4 0.6 1))"
    by blast
  then have "render (sample_env (Pixel 1 1 1 1)) (terminal_stage (filter_graph out)) =
         Some (\<lambda>pos. Pixel 0 0.4 1 1)"
    by (simp add: blend_normal_def composite_in_def)
  with out z e show ?thesis by blast
qed

text \<open>
  C3, as it is stated, makes the output the image of \<^verbatim>\<open>displaced_saturated\<close>. With
  \<^verbatim>\<open>specularOpacity\<close> 0 and a specular layer of alpha 0.5 the output pixel lies between
  the displaced and the saturated one, and is not the saturated one.
\<close>

theorem zero_opacity_not_displaced_saturated:
  "getValueOrMotion (specularOpacity (slider_props\<lparr>specularOpacity := Literal 0\<rparr>)) = 0
   \<and> pixel_of (sample_env (Pixel 0.5 0.5 0.5 0.5) ''displaced_saturated'') (0, 0)
       = Some (Pixel 0 0.4 1 1)
   \<and> terminal_pixel sample_deps (slider_props\<lparr>specularOpacity := Literal 0\<rparr>)
        (sample_env (Pixel 0.5 0.5 0.5 0.5)) (0, 0) = Some (Pixel 0.1 0.4 0.8 1)
   \<and> terminal_pixel sample_deps (slider_props\<lparr>specularOpacity := Literal 0\<rparr>)
        (sample_env (Pixel 0.5 0.5 0.5 0.5)) (0, 0)
       \<noteq> pixel_of (sample_env (Pixel 0.5 0.5 0.5 0.5) ''displaced_saturated'') (0, 0)"
proof -
  have "render (sample_env (Pixel 0.5 0.5 0.5 0.5))
          (specular_stage (slider_props\<lparr>specularOpacity := Literal 0\<rparr>)) =
     Some (\<lambda>pos. blend_normal
                   (transfer_alpha_linear 0 (Pixel 0.5 0.5 0.5 0.5))
                   (blend_normal (composite_in (Pixel 0 0.4 1 1) (Pixel 0.5 0.5 0.5 0.5))
                      (Pixel 0.2 0.4 0.6 1)))"
    by (subst render_specular_stage) (simp_all add: sample_env_def)
  then have "terminal_pixel sample_deps (slider_props\<lparr>specularOpacity := Literal 0\<rparr>)
        (sample_env (Pixel 0.5 0.5 0.5 0.5)) (0, 0) = Some (Pixel 0.1 0.4 0.8 1)"
    by (simp add: terminal_pixel_def emitted_graph_sample terminal_stage_content pixel_of_def
        transfer_alpha_linear_zero blend_normal_transparent blend_normal_def composite_in_def)
  then show ?thesis
    by (simp add: pixel_of_def sample_env_def)
qed

section \<open>The blur-fade overlay\<close>

lemma overlay_in_content:
  "\<exists>pre post. filter_graph (content d p mu du su) = pre @ overlay_stage @ post"
proof -
  have "filter_graph (content d p mu du su) =
      (primitives (magnifying_stage p mu) @ primitives (color_stage p mu)
       @ [blur_stage p mu] @ dispersion_stage d p du)
      @ overlay_stage @ ([saturation_stage p, specular_image p su] @ specular_stage p)"
    by (simp add: filter_graph_content)
  then show ?thesis by blast
qed

text \<open>The three nodes of the overlay are emitted for every props, one after the other;
  the blend reads the un-blurred combined result as its source and the faded blurred copy
  as its backdrop.\<close>

lemma overlay_nodes_emitted:
  assumes "Filter d p = Inr out"
    and "env ''displaced_combined'' = Some dc" and "env ''displaced_blurred_faded'' = Some dbf"
  shows "(\<exists>pre post. filter_graph out = pre @
       [Element ''feGaussianBlur''
          [(''in'', S ''displaced_combined''), (''stdDeviation'', N (Fin 10)),
           (''result'', S ''displaced_blurred'')] [],
        Element ''feComponentTransfer''
          [(''in'', S ''displaced_blurred''), (''result'', S ''displaced_blurred_faded'')]
          [Element ''feFuncA'' [(''type'', S ''linear''), (''slope'', S ''0.7'')] []],
        Element ''feBlend''
          [(''in'', S ''displaced_combined''), (''in2'', S ''displaced_blurred_faded''),
           (''mode'', S ''normal''), (''result'', S ''displaced'')] []] @ post)
   \<and> Option.bind (node_named (filter_graph out) ''displaced'') (primitive_image env) =
       Some (\<lambda>pos. blend_normal (dc pos) (dbf pos))"
proof -
  from filter_graph_Filter [OF assms(1)] obtain mu du su
    where g: "filter_graph out = filter_graph (content d p mu du su)" by blast
  from overlay_in_content [of d p mu du su] have
    "\<exists>pre post. filter_graph out = pre @ overlay_stage @ post"
    by (simp add: g)
  moreover have "Option.bind (node_named (filter_graph out) ''displaced'') (primitive_image env) =
       Some (\<lambda>pos. blend_normal (dc pos) (dbf pos))"
    using assms(2,3)
    by (simp add: g node_named_content) (simp add: node_named_def stage_defs image_defs)
  ultimately show ?thesis by (simp add: overlay_stage_def)
qed

text \<open>An opaque source hides its backdrop: wherever the un-blurred combined result is
  opaque, the image of \<^verbatim>\<open>displaced\<close> is the un-blurred result, whatever the blurred copy
  is.\<close>

lemma blend_normal_opaque_source: "alpha a = 1 \<Longrightarrow> blend_normal a b = a"
  by (cases a) (simp add: blend_normal_def)

lemma overlay_noop_on_opaque:
  assumes "Filter d p = Inr out"
    and "env ''displaced_combined'' = Some dc" and "env ''displaced_blurred_faded'' = Some dbf"
    and "\<And>pos. alpha (dc pos) = 1"
  shows "Option.bind (node_named (filter_graph out) ''displaced'') (primitive_image env) = Some dc"
  using overlay_nodes_emitted [OF assms(1-3)] assms(4)
  by (simp add: blend_normal_opaque_source)

text \<open>
  C5. Every graph should contain the blur-fade overlay: the Gaussian blur of the combined
  displaced result, the fade of the alpha of the blurred copy by 0.7, and a blend in mode
  \<^verbatim>\<open>normal\<close> of the faded blurred copy over the un-blurred combined result. The three
  nodes are emitted, but the blend has its inputs the other way round. With blur 0,
  \<^verbatim>\<open>specularOpacity\<close> 0, no colour scheme and no magnification, the source of the blend
  is the un-blurred result and its backdrop the faded blurred copy, where the blend that
  makes \<^verbatim>\<open>withSaturation\<close> has its overlay as source and its base as backdrop; over an
  opaque un-blurred pixel the image of \<^verbatim>\<open>displaced\<close> is that pixel, and not the blurred
  copy over it.
\<close>

theorem overlay_blend_unblurred_on_top:
  "pixel_of (overlay_env ''displaced_combined'') (0, 0) = Some (Pixel 0.2 0.4 0.6 1)
   \<and> pixel_of (overlay_env ''displaced_blurred_faded'') (0, 0) = Some (Pixel 0.21 0.28 0.35 0.7)
   \<and> emitted_attribute sample_deps (slider_props\<lparr>specularOpacity := Literal 0\<rparr>)
        ''displaced'' ''in'' = Some (S ''displaced_combined'')
   \<and> emitted_attribute sample_deps (slider_props\<lparr>specularOpacity := Literal 0\<rparr>)
        ''displaced'' ''in2'' = Some (S ''displaced_blurred_faded'')
   \<and> emitted_attribute sample_deps (slider_props\<lparr>specularOpacity := Literal 0\<rparr>)
        ''withSaturation'' ''in'' = Some (S ''specular_saturated'')
   \<and> emitted_attribute sample_deps (slider_props\<lparr>specularOpacity := Literal 0\<rparr>)
        ''withSaturation'' ''in2'' = Some (S ''displaced'')
   \<and> node_pixel sample_deps (slider_props\<lparr>specularOpacity := Literal 0\<rparr>) overlay_env
        ''displaced'' (0, 0) = Some (Pixel 0.2 0.4 0.6 1)
   \<and> node_pixel sample_deps (slider_props\<lparr>specularOpacity := Literal 0\<rparr>) overlay_env
        ''displaced'' (0, 0)
       \<noteq> Some (blend_normal (Pixel 0.21 0.28 0.35 0.7) (Pixel 0.2 0.4 0.6 1))"
proof -
  have n: "emitted_node sample_deps (slider_props\<lparr>specularOpacity := Literal 0\<rparr>) ''displaced''
      = Some (overlay_stage ! 2)"
    by (simp add: emitted_node_sample) (simp add: node_named_def stage_defs)
  have w: "emitted_node sample_deps (slider_props\<lparr>specularOpacity := Literal 0\<rparr>)
        ''withSaturation''
      = Some (specular_stage (slider_props\<lparr>specularOpacity := Literal 0\<rparr>) ! 2)"
    by (simp add: emitted_node_sample) (simp add: node_named_def stage_defs)
  have "node_pixel sample_deps (slider_props\<lparr>specularOpacity := Literal 0\<rparr>) overlay_env
        ''displaced'' (0, 0) = Some (Pixel 0.2 0.4 0.6 1)"
    by (simp add: node_pixel_def n overlay_stage_def image_defs overlay_env_def pixel_of_def
        blend_normal_def)
  then show ?thesis
    by (simp add: emitted_attribute_def n w overlay_stage_def specular_stage_def pixel_of_def
        overlay_env_def blend_normal_def)
qed

end
